theory Spec2Isabelle
  imports Main "HOL-Library.AList"
begin

section \<open>JavaScript values\<close>

text \<open>
  The values the evaluator handles. A callable is a user function \<open>JFun n\<close> (its
  behaviour is looked up in an environment), an element factory \<open>JElem tag\<close> made by
  \<open>defineElement(tag)\<close> (its \<open>type\<close> is \<open>domComponent\<close>) or the helper
  \<open>alwaysTrue\<close>. A plain object is an insertion-ordered list of its own enumerable
  properties. \<open>JEmptyProps\<close> is the frozen \<open>emptyProps\<close> object, whose only property
  \<open>$$empty\<close> is not enumerable. \<open>JText v\<close> is \<open>createTextVnode(v)\<close> and
  \<open>JVnode sel config\<close> is \<open>createVnode(sel, config)\<close>. Numbers are the integers
  (indices and numeric keys); other doubles are outside the model.
\<close>

datatype jsval =
    JUndefined
  | JNull
  | JBool bool
  | JNum int
  | JStr string
  | JFun nat
  | JElem string
  | JAlwaysTrue
  | JArr "jsval list"
  | JObj "(string \<times> jsval) list"
  | JEmptyProps
  | JText jsval
  | JVnode string jsval

datatype error =
    InvalidKeyType string jsval
  | InvalidKeyPattern string jsval
  | InvalidSeedPath jsval
  | UnrecognizedLeaf jsval
  | ConflictingChildren
  | TypeError string
  | RangeError string

text \<open>
  The result of running code that may throw or may not return: \<open>OutOfFuel\<close> stands for
  a computation that has not returned within the given number of nested component calls.
\<close>

datatype 'a outcome = OutOfFuel | Raise error | Return 'a

fun obind :: "'a outcome \<Rightarrow> ('a \<Rightarrow> 'b outcome) \<Rightarrow> 'b outcome" where
  "obind OutOfFuel f = OutOfFuel"
| "obind (Raise e) f = Raise e"
| "obind (Return x) f = f x"

fun typeof :: "jsval \<Rightarrow> string" where
  "typeof JUndefined = ''undefined''"
| "typeof JNull = ''object''"
| "typeof (JBool b) = ''boolean''"
| "typeof (JNum n) = ''number''"
| "typeof (JStr s) = ''string''"
| "typeof (JFun f) = ''function''"
| "typeof (JElem t) = ''function''"
| "typeof JAlwaysTrue = ''function''"
| "typeof (JArr xs) = ''object''"
| "typeof (JObj kvs) = ''object''"
| "typeof JEmptyProps = ''object''"
| "typeof (JText v) = ''object''"
| "typeof (JVnode sel c) = ''object''"

fun truthy :: "jsval \<Rightarrow> bool" where
  "truthy JUndefined = False"
| "truthy JNull = False"
| "truthy (JBool b) = b"
| "truthy (JNum n) = (n \<noteq> 0)"
| "truthy (JStr s) = (s \<noteq> [])"
| "truthy v = True"


fun isFunc :: "jsval \<Rightarrow> bool" where
  "isFunc (JFun f) = True"
| "isFunc (JElem t) = True"
| "isFunc JAlwaysTrue = True"
| "isFunc v = False"

text \<open>\<open>isType(value, valueTypes.vnode)\<close>: the nodes \<open>createVnode\<close> and
  \<open>createTextVnode\<close> make carry the type \<open>vnode\<close>.\<close>

fun isVnode :: "jsval \<Rightarrow> bool" where
  "isVnode (JVnode sel c) = True"
| "isVnode (JText v) = True"
| "isVnode v = False"

text \<open>\<open>isType(f, valueTypes.domComponent)\<close>: only \<open>defineElement\<close> sets that type.\<close>

fun isDomComponent :: "jsval \<Rightarrow> bool" where
  "isDomComponent (JElem t) = True"
| "isDomComponent v = False"

subsection \<open>Strings of values\<close>

definition digit_char :: "nat \<Rightarrow> char" where
  "digit_char d = ''0123456789'' ! d"

fun string_of_nat :: "nat \<Rightarrow> string" where
  "string_of_nat n =
     (if n < 10 then [digit_char n]
      else string_of_nat (n div 10) @ [digit_char (n mod 10)])"

declare string_of_nat.simps [simp del]

definition string_of_int :: "int \<Rightarrow> string" where
  "string_of_int i =
     (if i < 0 then CHR ''-'' # string_of_nat (nat (- i)) else string_of_nat (nat i))"

fun join :: "string \<Rightarrow> string list \<Rightarrow> string" where
  "join sep [] = []"
| "join sep [x] = x"
| "join sep (x # y # ys) = x @ sep @ join sep (y # ys)"

text \<open>
  \<open>String(v)\<close>, which a template literal applies to each of its holes. The source text
  of a function is not modelled: a callable prints as \<open>function\<close>.
\<close>

fun toStr :: "jsval \<Rightarrow> string" where
  "toStr JUndefined = ''undefined''"
| "toStr JNull = ''null''"
| "toStr (JBool b) = (if b then ''true'' else ''false'')"
| "toStr (JNum n) = string_of_int n"
| "toStr (JStr s) = s"
| "toStr (JFun f) = ''function''"
| "toStr (JElem t) = ''function''"
| "toStr JAlwaysTrue = ''function''"
| "toStr (JArr xs) =
     join '','' (map (\<lambda>x. if x = JUndefined \<or> x = JNull then [] else toStr x) xs)"
| "toStr (JObj kvs) = ''[object Object]''"
| "toStr JEmptyProps = ''[object Object]''"
| "toStr (JText v) = ''[object Object]''"
| "toStr (JVnode sel c) = ''[object Object]''"

subsection \<open>Objects\<close>

definition objGet :: "(string \<times> jsval) list \<Rightarrow> string \<Rightarrow> jsval" where
  "objGet kvs k = (case map_of kvs k of None \<Rightarrow> JUndefined | Some v \<Rightarrow> v)"

definition objSet :: "(string \<times> jsval) list \<Rightarrow> string \<Rightarrow> jsval \<Rightarrow> (string \<times> jsval) list" where
  "objSet kvs k v = AList.update k v kvs"

text \<open>
  \<open>o.k\<close> for a value \<open>o\<close> that is not \<open>undefined\<close> or \<open>null\<close>: an own property
  of an object, a field of a node (\<open>sel\<close>, and the fields of the config it was made
  from), and \<open>undefined\<close> otherwise. Properties inherited from \<open>Object.prototype\<close>
  are not modelled.
\<close>

fun getProp :: "jsval \<Rightarrow> string \<Rightarrow> jsval" where
  "getProp (JObj kvs) k = objGet kvs k"
| "getProp JEmptyProps k = (if k = ''$$empty'' then JBool True else JUndefined)"
| "getProp (JVnode sel c) k = (if k = ''sel'' then JStr sel else getProp c k)"
| "getProp v k = JUndefined"

text \<open>\<open>Object.keys(o)\<close> of a props object: the own enumerable property names.\<close>

fun objKeys :: "jsval \<Rightarrow> string list" where
  "objKeys (JObj kvs) = remdups (map fst kvs)"
| "objKeys v = []"

section \<open>Constants and helpers of modules that are not part of the sources\<close>

text \<open>
  \<open>constants.js\<close>, \<open>utils.js\<close> and \<open>vnode.js\<close> are imported by the evaluator but
  are not among the sources. What the evaluator takes from them is a parameter of the
  model:
  \<^item> \<open>pathSeparator\<close>, the separator of identity paths;
  \<^item> \<open>specialProps\<close>, the property names \<open>k\<close> for which \<open>specialProps[k]\<close> is truthy;
  \<^item> \<open>primitiveTypes\<close>, the \<open>typeof\<close> names that are rendered as text;
  \<^item> \<open>ignoredValues\<close>, the values that are rendered as a comment placeholder;
  \<^item> \<open>isDef\<close>, the test for a defined value;
  \<^item> \<open>nodeRefId\<close>, the \<open>refId\<close> property of an evaluated child.
\<close>

record constants =
  pathSeparator :: string
  specialProps :: "string list"
  primitiveTypes :: "string list"
  ignoredValues :: "jsval list"
  isDef :: "jsval \<Rightarrow> bool"
  nodeRefId :: "jsval \<Rightarrow> jsval"

section \<open>Key validation\<close>

text \<open>\<open>keyRegex = /^[a-zA-Z0-9-_/]*$/\<close>: every character is a letter, a digit,
  a dash, an underscore or a slash.\<close>

definition keyChar :: "char \<Rightarrow> bool" where
  "keyChar c \<longleftrightarrow>
     c \<in> set ''abcdefghijklmnopqrstuvwxyz'' \<or> c \<in> set ''ABCDEFGHIJKLMNOPQRSTUVWXYZ'' \<or>
     c \<in> set ''0123456789'' \<or> c = CHR ''-'' \<or> c = CHR ''_'' \<or> c = CHR ''/''"

definition keyRegex_test :: "jsval \<Rightarrow> bool" where
  "keyRegex_test v = list_all keyChar (toStr v)"

definition vnodeKeyTypes :: "string \<Rightarrow> bool" where
  "vnodeKeyTypes t \<longleftrightarrow> t = ''string'' \<or> t = ''number''"

text \<open>\<open>validateKey(key, keyType = 'key')\<close>; \<open>dev\<close> is
  \<open>process.env.NODE_ENV === 'development'\<close>.\<close>

definition validateKey :: "constants \<Rightarrow> bool \<Rightarrow> jsval \<Rightarrow> string \<Rightarrow> jsval outcome" where
  "validateKey K dev key keyType =
     (if \<not> dev then Return key
      else if isDef K key then
        (if \<not> vnodeKeyTypes (typeof key) then Raise (InvalidKeyType keyType key)
         else if \<not> keyRegex_test key then Raise (InvalidKeyPattern keyType key)
         else Return key)
      else Return key)"

section \<open>The exported Fragment component\<close>

text \<open>\<open>const Fragment = ({ children }) => children\<close>: destructuring \<open>undefined\<close> or
  \<open>null\<close> throws a TypeError, any other argument is read at \<open>children\<close>.\<close>

definition Fragment :: "jsval \<Rightarrow> jsval outcome" where
  "Fragment p =
     (if p = JUndefined \<or> p = JNull then Raise (TypeError ''Cannot destructure'')
      else Return (getProp p ''children''))"

section \<open>The render context\<close>

text \<open>
  Modelled from the spec: \<open>render-context.js\<close> and \<open>vnode.js\<close>, which hold the
  stores the evaluator reads and writes, are not among the sources. The memoization
  store (\<open>getCurrentConfig\<close>, \<open>setCurrentConfig\<close>, \<open>setCurrentDispatcher\<close>) and the
  tree-value store (\<open>setTreeValue\<close>, \<open>getTreeValue\<close>, \<open>hasTreeValue\<close>) are
  process-wide tables keyed by RefId; a lookup of an absent RefId yields
  \<open>noCurrentConfig\<close> (here \<open>None\<close>) and \<open>undefined\<close>. \<open>patch(oldTree, newTree)\<close> is
  the external patch engine: each request is recorded and the new tree is what it
  returns.

  \<open>invoked\<close> is not a table of the program: it records every call \<open>f(fInput)\<close> the
  evaluator makes, as the RefId, the callable and its input, so that "the component is
  (not) invoked" can be stated.
\<close>

record rstate =
  configs :: "(jsval \<times> jsval) list"
  dispatchers :: "(jsval \<times> jsval) list"
  treeValues :: "(jsval \<times> jsval) list"
  invoked :: "(jsval \<times> jsval \<times> jsval) list"
  patches :: "(jsval \<times> jsval) list"

definition emptyState :: rstate where
  "emptyState = \<lparr>configs = [], dispatchers = [], treeValues = [], invoked = [], patches = []\<rparr>"

definition getCurrentConfig :: "rstate \<Rightarrow> jsval \<Rightarrow> jsval option" where
  "getCurrentConfig S refId = map_of (configs S) refId"

definition setCurrentConfig :: "jsval \<Rightarrow> jsval \<Rightarrow> rstate \<Rightarrow> rstate" where
  "setCurrentConfig refId config S = S\<lparr>configs := AList.update refId config (configs S)\<rparr>"


definition setCurrentDispatcher :: "jsval \<Rightarrow> jsval \<Rightarrow> rstate \<Rightarrow> rstate" where
  "setCurrentDispatcher refId f S = S\<lparr>dispatchers := AList.update refId f (dispatchers S)\<rparr>"

definition getTreeValue :: "rstate \<Rightarrow> jsval \<Rightarrow> jsval" where
  "getTreeValue S refId =
     (case map_of (treeValues S) refId of None \<Rightarrow> JUndefined | Some v \<Rightarrow> v)"

definition hasTreeValue :: "rstate \<Rightarrow> jsval \<Rightarrow> bool" where
  "hasTreeValue S refId = (map_of (treeValues S) refId \<noteq> None)"

definition setTreeValue :: "jsval \<Rightarrow> jsval \<Rightarrow> rstate \<Rightarrow> rstate" where
  "setTreeValue refId v S = S\<lparr>treeValues := AList.update refId v (treeValues S)\<rparr>"


text \<open>The completion callback \<open>onPathValue(refId, value, config)\<close>: the sources pass
  \<open>setTreeValue\<close> or \<open>identity\<close>.\<close>

datatype onPathValue = SetTreeValue | Identity

fun applyOnPathValue :: "onPathValue \<Rightarrow> jsval \<Rightarrow> jsval \<Rightarrow> jsval \<Rightarrow> rstate \<Rightarrow> rstate" where
  "applyOnPathValue SetTreeValue refId v config S = setTreeValue refId v S"
| "applyOnPathValue Identity refId v config S = S"

section \<open>Nodes and calls\<close>

text \<open>
  Modelled from the spec: \<open>createVnode(sel, config)\<close> and \<open>createTextVnode(value)\<close>
  of \<open>vnode.js\<close> build a composite node from a selector and the config of the call
  (its props, with the children, and its key), and a text leaf from a primitive.
  \<open>validateVnodeValue\<close> raises, in development mode, on a value in leaf position that
  is not a node.
\<close>

definition createVnode :: "string \<Rightarrow> jsval \<Rightarrow> jsval" where
  "createVnode sel config = JVnode sel config"

definition createTextVnode :: "jsval \<Rightarrow> jsval" where
  "createTextVnode v = JText v"

definition validateVnodeValue :: "bool \<Rightarrow> jsval \<Rightarrow> jsval outcome" where
  "validateVnodeValue dev v =
     (if dev \<and> \<not> isVnode v then Raise (UnrecognizedLeaf v) else Return v)"

text \<open>
  Component functions are pure here: a user function is its number, and the
  environment gives the value it returns for a list of arguments. An element factory
  \<open>elementFactory(config)\<close> returns \<open>createVnode(tagName, config)\<close>; calling anything
  that is not callable is a TypeError.
\<close>

type_synonym env = "nat \<Rightarrow> jsval list \<Rightarrow> jsval"

fun callFn :: "env \<Rightarrow> jsval \<Rightarrow> jsval list \<Rightarrow> jsval outcome" where
  "callFn env (JFun f) args = Return (env f args)"
| "callFn env (JElem tag) args =
     Return (createVnode tag (case args of [] \<Rightarrow> JUndefined | a # _ \<Rightarrow> a))"
| "callFn env JAlwaysTrue args = Return (JBool True)"
| "callFn env v args = Raise (TypeError ''not a function'')"

section \<open>Identity paths and props\<close>

text \<open>A path is the symbol \<open>newPath\<close> or a RefId.\<close>

datatype path = NewPath | Path jsval

fun addToRefId :: "constants \<Rightarrow> path \<Rightarrow> jsval \<Rightarrow> jsval" where
  "addToRefId K NewPath location = location"
| "addToRefId K (Path currentPath) location =
     JStr (toStr currentPath @ pathSeparator K @ toStr location)"

type_synonym callback =
  "jsval \<Rightarrow> path \<Rightarrow> jsval \<Rightarrow> jsval \<Rightarrow> onPathValue \<Rightarrow> rstate \<Rightarrow> (jsval \<times> rstate) outcome"

text \<open>\<open>identity\<close> as an argument processor: it returns its first argument.\<close>

definition identity :: callback where
  "identity arg p i prevCtor opv S = Return (arg, S)"

text \<open>The loop of \<open>prepareArgs\<close> and of \<open>value.map\<close>: the callback is applied to
  each element in order, with the element's index.\<close>

fun evalEach :: "callback \<Rightarrow> path \<Rightarrow> jsval \<Rightarrow> onPathValue \<Rightarrow> jsval list \<Rightarrow> nat \<Rightarrow> rstate
    \<Rightarrow> (jsval list \<times> rstate) outcome" where
  "evalEach cb p prevCtor opv [] i S = Return ([], S)"
| "evalEach cb p prevCtor opv (arg # rest) i S =
     obind (cb arg p (JNum (int i)) prevCtor opv S) (\<lambda>(evaluated, S1).
     obind (evalEach cb p prevCtor opv rest (Suc i) S1) (\<lambda>(args, S2).
     Return (evaluated # args, S2)))"

definition prepareArgs :: "jsval list \<Rightarrow> callback \<Rightarrow> jsval \<Rightarrow> jsval \<Rightarrow> onPathValue \<Rightarrow> nat
    \<Rightarrow> rstate \<Rightarrow> (jsval list \<times> rstate) outcome" where
  "prepareArgs lisp cb p prevCtor opv skip S =
     evalEach cb (Path p) prevCtor opv (drop skip lisp) 0 S"

text \<open>\<open>applyProps(configProps, props)\<close>: every own property of \<open>props\<close> that is not a
  special prop is written onto \<open>configProps\<close>.\<close>

definition applyProps :: "constants \<Rightarrow> (string \<times> jsval) list \<Rightarrow> jsval \<Rightarrow> (string \<times> jsval) list" where
  "applyProps K configProps props =
     fold (\<lambda>k p. if k \<in> set (specialProps K) then p else objSet p k (getProp props k))
       (objKeys props) configProps"

fun isPlainObject :: "jsval \<Rightarrow> bool" where
  "isPlainObject (JObj kvs) = True"
| "isPlainObject JEmptyProps = True"
| "isPlainObject v = False"

definition getPropsFromArgs :: "jsval list \<Rightarrow> jsval" where
  "getPropsFromArgs value =
     (let firstArg = (if 1 < length value then value ! 1 else JUndefined);
          hasProps = (isPlainObject firstArg \<and> \<not> isVnode firstArg)
      in if hasProps then firstArg else JEmptyProps)"

definition mkConfig :: "jsval \<Rightarrow> jsval \<Rightarrow> jsval \<Rightarrow> jsval" where
  "mkConfig props key ctor = JObj [(''props'', props), (''key'', key), (''ctor'', ctor)]"

text \<open>
  \<open>parseProps\<close> returns either the config object that is stored for the RefId or a
  new object; \<open>processLisp\<close> tells them apart by reference (\<open>currentConfig === config\<close>).
  The result says which of the two it is. The property names \<open>specialProps.$$refId\<close>,
  \<open>specialProps.$$previousRefId\<close> and \<open>specialProps.shouldUpdate\<close> are the names
  they are spelled with: \<open>hooks.js\<close> reads \<open>$$refId\<close>, and \<open>parseProps\<close> reads
  \<open>shouldUpdate\<close>, under these literal names. \<open>refIdFor\<close> is the RefId that
  \<open>parseProps\<close> computes.
\<close>

datatype cfgref = Stored jsval | Fresh jsval

fun cfgOf :: "cfgref \<Rightarrow> jsval" where
  "cfgOf (Stored c) = c"
| "cfgOf (Fresh c) = c"

definition refIdFor :: "constants \<Rightarrow> jsval \<Rightarrow> path \<Rightarrow> jsval \<Rightarrow> jsval" where
  "refIdFor K props p prevKey =
     (let key = (if getProp props ''key'' = JUndefined then prevKey else getProp props ''key'');
          previousRefId = getProp props ''$$previousRefId''
      in if isDef K previousRefId then previousRefId else addToRefId K p key)"

definition parseProps :: "constants \<Rightarrow> env \<Rightarrow> bool \<Rightarrow> jsval list \<Rightarrow> callback \<Rightarrow> path \<Rightarrow> jsval
    \<Rightarrow> jsval \<Rightarrow> onPathValue \<Rightarrow> rstate \<Rightarrow> (cfgref \<times> rstate) outcome" where
  "parseProps K env dev value argProcessor p prevKey ctor opv S =
     (let props = getPropsFromArgs value in
      obind (validateKey K dev (getProp props ''key'') ''key'') (\<lambda>_.
      let refId = refIdFor K props p prevKey;
          skipValues = (if \<not> truthy (getProp props ''$$empty'') then 2 else 1)
      in obind (prepareArgs value argProcessor refId ctor opv skipValues S) (\<lambda>(args, S1).
      let config = mkConfig
            (JObj (applyProps K [(''$$refId'', refId), (''children'', JArr args)] props))
            refId ctor
      in case getCurrentConfig S1 refId of
           None \<Rightarrow> Return (Fresh config, S1)
         | Some currentConfig \<Rightarrow>
             (let shouldUpdate =
                (if getProp props ''shouldUpdate'' = JUndefined then JAlwaysTrue
                 else getProp props ''shouldUpdate'')
              in obind (callFn env shouldUpdate
                          [getProp currentConfig ''props'', getProp config ''props'']) (\<lambda>r.
                 if \<not> truthy r then Return (Stored currentConfig, S1)
                 else Return (Fresh config, S1))))))"

section \<open>The expression evaluator\<close>

text \<open>The branch of \<open>processLisp\<close> for a plain collection; \<open>rec\<close> is \<open>processLisp\<close>
  itself.\<close>

definition processCollection :: "constants \<Rightarrow> callback \<Rightarrow> jsval list \<Rightarrow> path \<Rightarrow> jsval
    \<Rightarrow> onPathValue \<Rightarrow> rstate \<Rightarrow> (jsval \<times> rstate) outcome" where
  "processCollection K rec value p prevCtor opv S =
     (let nextPath = addToRefId K p (JStr ''@item'') in
      obind (evalEach rec (Path nextPath) prevCtor opv value 0 S) (\<lambda>(results, S1).
      Return (JArr results, S1)))"

text \<open>
  The call of the component, the last part of \<open>processLisp\<close>: the config becomes the
  current one, \<open>f\<close> is called, the value it returns is evaluated one level under the
  RefId, and the completion callback is notified.
\<close>

definition invokeComponent :: "env \<Rightarrow> callback \<Rightarrow> jsval \<Rightarrow> jsval \<Rightarrow> jsval \<Rightarrow> jsval
    \<Rightarrow> onPathValue \<Rightarrow> rstate \<Rightarrow> (jsval \<times> rstate) outcome" where
  "invokeComponent env rec f fInput config refId opv S1 =
     (let S2 = setCurrentDispatcher refId f (setCurrentConfig refId config S1) in
      obind (callFn env f [fInput]) (\<lambda>nextValue.
      let S3 = S2\<lparr>invoked := invoked S2 @ [(refId, f, fInput)]\<rparr> in
      obind (rec nextValue (Path refId) (JStr ''@fn'') f opv S3) (\<lambda>(finalValue, S4).
      Return (finalValue, applyOnPathValue opv refId finalValue config S4))))"

text \<open>The branch of \<open>processLisp\<close> for an expression \<open>[f, ...args]\<close>.\<close>

definition processExpression :: "constants \<Rightarrow> env \<Rightarrow> bool \<Rightarrow> callback \<Rightarrow> jsval list \<Rightarrow> path
    \<Rightarrow> jsval \<Rightarrow> onPathValue \<Rightarrow> rstate \<Rightarrow> (jsval \<times> rstate) outcome" where
  "processExpression K env dev rec value p prevKey opv S =
     (let f = hd value;
          isVnodeFn = isDomComponent f;
          nextCtor = f;
          argProcessor = (if isVnodeFn then rec else identity)
      in obind (parseProps K env dev value argProcessor p prevKey nextCtor opv S) (\<lambda>(cr, S1).
      let config = cfgOf cr;
          fInput = (if isVnodeFn then config else getProp config ''props'');
          refId = getProp (getProp config ''props'') ''$$refId'';
          isMemoized = (case cr of Stored c \<Rightarrow> getCurrentConfig S1 refId = Some c
                                 | Fresh c \<Rightarrow> False)
      in if isMemoized then Return (getTreeValue S1 refId, S1)
         else invokeComponent env rec f fInput config refId opv S1))"

text \<open>
  \<open>processLisp(value, path, prevKey, prevCtor, onPathValue)\<close>. The first argument
  bounds the depth of nested calls of \<open>processLisp\<close>: a component may return an
  expression that calls it again, so the recursion of the source need not end.
\<close>

primrec processLisp :: "constants \<Rightarrow> env \<Rightarrow> bool \<Rightarrow> nat \<Rightarrow> callback" where
  "processLisp K env dev 0 = (\<lambda>value p prevKey prevCtor opv S. OutOfFuel)"
| "processLisp K env dev (Suc n) = (\<lambda>value p prevKey prevCtor opv S.
     if typeof value \<in> set (primitiveTypes K) then Return (createTextVnode value, S)
     else if value \<in> set (ignoredValues K) then
       Return (createVnode ''!''
         (JObj [(''props'', JEmptyProps), (''children'', JStr (toStr value))]), S)
     else
       (case value of
          JArr elems \<Rightarrow>
            if elems \<noteq> [] \<and> isFunc (hd elems)
            then processExpression K env dev (processLisp K env dev n) elems p prevKey opv S
            else processCollection K (processLisp K env dev n) elems p prevCtor opv S
        | _ \<Rightarrow> obind (validateVnodeValue dev value) (\<lambda>v. Return (v, S))))"

declare processLisp.simps(2) [simp del]

definition validateSeedPath :: "constants \<Rightarrow> bool \<Rightarrow> rstate \<Rightarrow> jsval \<Rightarrow> unit outcome" where
  "validateSeedPath K dev S seedPath =
     (if hasTreeValue S seedPath then Return ()
      else if \<not> vnodeKeyTypes (typeof seedPath) then Raise (InvalidSeedPath seedPath)
      else obind (validateKey K dev seedPath ''seedPath'') (\<lambda>_. Return ()))"

text \<open>\<open>createElement(value, seedPath, onPathValue = identity)\<close>.\<close>

definition createElement :: "constants \<Rightarrow> env \<Rightarrow> bool \<Rightarrow> nat \<Rightarrow> jsval \<Rightarrow> jsval \<Rightarrow> onPathValue
    \<Rightarrow> rstate \<Rightarrow> (jsval \<times> rstate) outcome" where
  "createElement K env dev fuel value seedPath opv S =
     obind (if dev then validateSeedPath K dev S seedPath else Return ()) (\<lambda>_.
     if isVnode value then Return (value, S)
     else processLisp K env dev fuel value NewPath (JStr (toStr seedPath)) JUndefined opv S)"


section \<open>The hooks subsystem\<close>

subsection \<open>Paths as strings\<close>

text \<open>\<open>path.indexOf(sep)\<close>: the index of the first occurrence, \<open>None\<close> for \<open>-1\<close>.\<close>

fun indexOf :: "string \<Rightarrow> string \<Rightarrow> nat option" where
  "indexOf sep [] = (if sep = [] then Some 0 else None)"
| "indexOf sep (c # cs) =
     (if take (length sep) (c # cs) = sep then Some 0
      else map_option Suc (indexOf sep cs))"

definition getPathRoot :: "constants \<Rightarrow> string \<Rightarrow> string" where
  "getPathRoot K p =
     (case indexOf (pathSeparator K) p of None \<Rightarrow> p | Some sepIndex \<Rightarrow> take sepIndex p)"

text \<open>\<open>refId.split(sep)\<close>: \<open>acc\<close> is the segment read so far.\<close>

function splitAcc :: "string \<Rightarrow> string \<Rightarrow> string \<Rightarrow> string list" where
  "splitAcc sep acc [] = [acc]"
| "splitAcc sep acc (c # cs) =
     (if sep \<noteq> [] \<and> take (length sep) (c # cs) = sep
      then acc # splitAcc sep [] (drop (length sep) (c # cs))
      else splitAcc sep (acc @ [c]) cs)"
  by pat_completeness auto
termination
  by (relation "measure (\<lambda>(sep, acc, s). length s)") auto

definition split :: "string \<Rightarrow> string \<Rightarrow> string list" where
  "split s sep = (if sep = [] then map (\<lambda>c. [c]) s else splitAcc sep [] s)"

subsection \<open>Models\<close>

text \<open>
  Modelled from the spec: the reactive primitive of the \<open>atomic-state\<close> package.
  \<open>atom(v)\<close> creates a cell holding \<open>v\<close> with no watchers and
  \<open>addWatch(cell, watcherId, callback)\<close> sets the watcher of that id. A cell is an
  object: the registries and the callers hold its address in \<open>atoms\<close>. A watcher
  function is a closure made by one call of \<open>useModel\<close>; it is its number.
  \<open>enqueueHook\<close> of \<open>vnode.js\<close> queues the teardown callback with its arguments.
\<close>

record model =
  mvalue :: jsval
  watchersList :: "(string \<times> nat) list"

record hstate =
  activeModels :: "(string \<times> (jsval \<times> nat) list) list"
  atoms :: "model list"
  hookQueue :: "(string \<times> jsval \<times> jsval \<times> nat) list"
  nextWatcher :: nat

definition emptyHooks :: hstate where
  "emptyHooks = \<lparr>activeModels = [], atoms = [], hookQueue = [], nextWatcher = 0\<rparr>"

definition getScopedModels :: "constants \<Rightarrow> hstate \<Rightarrow> string \<Rightarrow> (jsval \<times> nat) list option" where
  "getScopedModels K H p = map_of (activeModels H) (getPathRoot K p)"

definition setupScopedModels :: "constants \<Rightarrow> string \<Rightarrow> hstate \<Rightarrow> hstate" where
  "setupScopedModels K p H =
     H\<lparr>activeModels := AList.update (getPathRoot K p) [] (activeModels H)\<rparr>"

definition atom :: "jsval \<Rightarrow> hstate \<Rightarrow> nat \<times> hstate" where
  "atom v H = (length (atoms H), H\<lparr>atoms := atoms H @ [\<lparr>mvalue = v, watchersList = []\<rparr>]\<rparr>)"

definition addWatch :: "nat \<Rightarrow> string \<Rightarrow> nat \<Rightarrow> hstate \<Rightarrow> hstate" where
  "addWatch m watcherId fn H =
     H\<lparr>atoms := (atoms H)[m := (atoms H ! m)
          \<lparr>watchersList := AList.update watcherId fn (watchersList (atoms H ! m))\<rparr>]\<rparr>"

definition enqueueHook :: "string \<Rightarrow> jsval \<Rightarrow> jsval \<Rightarrow> nat \<Rightarrow> hstate \<Rightarrow> hstate" where
  "enqueueHook refId key shouldCleanup watcherFn H =
     H\<lparr>hookQueue := hookQueue H @ [(refId, key, shouldCleanup, watcherFn)]\<rparr>"

definition initModel :: "env \<Rightarrow> jsval \<Rightarrow> hstate \<Rightarrow> (nat \<times> hstate) outcome" where
  "initModel env initialModel H =
     obind (if isFunc initialModel then callFn env initialModel [] else Return initialModel)
       (\<lambda>v. Return (atom v H))"

text \<open>\<open>defaultOptions = { shouldCleanup: () => true }\<close>.\<close>

definition defaultOptions :: jsval where
  "defaultOptions = JObj [(''shouldCleanup'', JAlwaysTrue)]"

text \<open>
  \<open>useModel(refId, key = refId, initialModel, options = defaultOptions)\<close>. A default
  parameter applies when the argument is \<open>undefined\<close>. The call made after
  \<open>setupScopedModels\<close> finds the registry it has just created.
\<close>

function useModel :: "constants \<Rightarrow> env \<Rightarrow> string \<Rightarrow> jsval \<Rightarrow> jsval \<Rightarrow> jsval \<Rightarrow> hstate
    \<Rightarrow> (nat \<times> hstate) outcome" where
  "useModel K env refId key0 initialModel options0 H =
     (let key = (if key0 = JUndefined then JStr refId else key0);
          options = (if options0 = JUndefined then defaultOptions else options0)
      in case getScopedModels K H refId of
           None \<Rightarrow> useModel K env refId key initialModel options (setupScopedModels K refId H)
         | Some scopedModels \<Rightarrow>
             obind (case map_of scopedModels key of
                      Some m \<Rightarrow> Return (m, H)
                    | None \<Rightarrow> initModel env initialModel H) (\<lambda>(m, H1).
             if options = JNull then Raise (TypeError ''Cannot destructure'')
             else
               (let shouldCleanup =
                      (if getProp options ''shouldCleanup'' = JUndefined
                       then getProp defaultOptions ''shouldCleanup''
                       else getProp options ''shouldCleanup'');
                    update = nextWatcher H1;
                    H2 = H1\<lparr>nextWatcher := Suc update,
                            activeModels := AList.update (getPathRoot K refId)
                              (AList.update key m scopedModels) (activeModels H1)\<rparr>;
                    H3 = addWatch m refId update H2;
                    H4 = enqueueHook refId key shouldCleanup update H3
                in Return (m, H4))))"
  by pat_completeness auto
termination
  by (relation "measure (\<lambda>(K, env, refId, key0, initialModel, options0, H).
        if getScopedModels K H refId = None then 1 else 0)")
     (auto simp: getScopedModels_def setupScopedModels_def update_conv')

declare useModel.simps [simp del]

text \<open>Modelled from the spec: \<open>withDefault(value, defaultValue)\<close> of \<open>utils.js\<close>
  is the default when the value is \<open>undefined\<close>.\<close>

definition withDefault :: "'a option \<Rightarrow> 'a \<Rightarrow> 'a" where
  "withDefault v d = (case v of None \<Rightarrow> d | Some x \<Rightarrow> x)"

definition emptyMap :: "(jsval \<times> nat) list" where
  "emptyMap = []"

definition hasModel :: "constants \<Rightarrow> hstate \<Rightarrow> string \<Rightarrow> jsval \<Rightarrow> bool" where
  "hasModel K H refId key =
     (map_of (withDefault (getScopedModels K H refId) emptyMap) key \<noteq> None)"

definition getAllModels :: "constants \<Rightarrow> hstate \<Rightarrow> string \<Rightarrow> (jsval \<times> nat) list option" where
  "getAllModels K H refId = getScopedModels K H refId"

subsection \<open>Forced update\<close>








section \<open>Constants for the examples\<close>

text \<open>
  The values the examples below run with: the separator and the markers of the spec's
  examples (\<open>root/@item/0\<close>), the special props \<open>hooks.js\<close> names, strings and numbers
  as primitives, \<open>undefined\<close>, \<open>null\<close> and \<open>false\<close> as ignored values, and a
  child's \<open>refId\<close> read from its props.
\<close>

definition defaultConstants :: constants where
  "defaultConstants =
     \<lparr>pathSeparator = ''/'',
      specialProps = [''$$refId'', ''$$previousRefId'', ''shouldUpdate''],
      primitiveTypes = [''string'', ''number''],
      ignoredValues = [JUndefined, JNull, JBool False],
      isDef = (\<lambda>v. v \<noteq> JUndefined),
      nodeRefId = (\<lambda>v. getProp (getProp v ''props'') ''$$refId'')\<rparr>"

section \<open>The earlier revision of the props parser\<close>





text \<open>A user function that returns \<open>undefined\<close> whatever it is given, and a realized
  \<open>div\<close> node.\<close>

definition idleEnv :: env where
  "idleEnv f args = JUndefined"

definition divNode :: jsval where
  "divNode = JVnode ''div''
     (mkConfig (JObj [(''$$refId'', JStr ''root''), (''children'', JArr [])])
        (JStr ''root'') (JElem ''div''))"

text \<open>
  The components of the examples. In \<open>itemEnv\<close> every user function returns the
  string \<open>x\<close>. In \<open>wrapEnv\<close> function 0 is \<open>Wrapper = () => [Inner, {}]\<close> and
  function 1 is \<open>Inner = () => [div, {}]\<close>. In \<open>eqEnv\<close> and \<open>neqEnv\<close> function 0
  is a component that returns the string \<open>hi\<close> and function 1 is the predicate
  \<open>(a, b) => a.x === b.x\<close>, respectively \<open>(a, b) => a.x !== b.x\<close>.
\<close>

definition itemEnv :: env where
  "itemEnv f args = JStr ''x''"



definition eqEnv :: env where
  "eqEnv f args =
     (if f = 0 then JStr ''hi''
      else case args of
             [a, b] \<Rightarrow> JBool (getProp a ''x'' = getProp b ''x'')
           | _ \<Rightarrow> JUndefined)"

definition neqEnv :: env where
  "neqEnv f args =
     (if f = 0 then JStr ''hi''
      else case args of
             [a, b] \<Rightarrow> JBool (getProp a ''x'' \<noteq> getProp b ''x'')
           | _ \<Rightarrow> JUndefined)"

text \<open>The expression \<open>[Comp, {x, shouldUpdate}]\<close>, the props and the config of its
  call at the RefId \<open>R\<close>, and the stores after one and after two calls with \<open>x = 1\<close>.\<close>

definition memoExpr :: "int \<Rightarrow> jsval" where
  "memoExpr x = JArr [JFun 0, JObj [(''x'', JNum x), (''shouldUpdate'', JFun 1)]]"

definition memoProps :: "int \<Rightarrow> jsval" where
  "memoProps x = JObj [(''$$refId'', JStr ''R''), (''children'', JArr []), (''x'', JNum x)]"

definition memoConfig :: "int \<Rightarrow> jsval" where
  "memoConfig x = mkConfig (memoProps x) (JStr ''R'') (JFun 0)"

definition memoState1 :: rstate where
  "memoState1 =
     \<lparr>configs = [(JStr ''R'', memoConfig 1)],
      dispatchers = [(JStr ''R'', JFun 0)],
      treeValues = [(JStr ''R'', JText (JStr ''hi''))],
      invoked = [(JStr ''R'', JFun 0, memoProps 1)],
      patches = []\<rparr>"

definition memoState2 :: rstate where
  "memoState2 = memoState1\<lparr>invoked := [(JStr ''R'', JFun 0, memoProps 1), (JStr ''R'', JFun 0, memoProps 1)]\<rparr>"

text \<open>The registry after \<open>useModel('root/0', undefined, 5)\<close> on empty hooks.\<close>

definition hooksAfter :: hstate where
  "hooksAfter =
     \<lparr>activeModels = [(''root'', [(JStr ''root/0'', 0)])],
      atoms = [\<lparr>mvalue = JNum 5, watchersList = [(''root/0'', 0)]\<rparr>],
      hookQueue = [(''root/0'', JStr ''root/0'', JAlwaysTrue, 0)],
      nextWatcher = 1\<rparr>"














section \<open>Basic facts\<close>

lemma obind_assoc: "obind (obind m f) g = obind m (\<lambda>x. obind (f x) g)"
  by (cases m) auto

lemma obind_Return_iff:
  "obind m f = Return y \<longleftrightarrow> (\<exists>x. m = Return x \<and> f x = Return y)"
  by (cases m) auto

lemma string_of_nat_digit: "n < 10 \<Longrightarrow> string_of_nat n = [digit_char n]"
  by (simp add: string_of_nat.simps)

lemma string_of_int_small [simp]:
  "string_of_int 0 = ''0''" "string_of_int 1 = ''1''" "string_of_int 2 = ''2''"
  by (simp_all add: string_of_int_def string_of_nat_digit digit_char_def)

lemma callFn_isFunc: "isFunc f \<Longrightarrow> \<exists>v. callFn env f args = Return v"
  by (cases f) auto

section \<open>Steps of the evaluator\<close>

lemma evalEach_identity: "evalEach identity p c ov xs i S = Return (xs, S)"
  by (induction xs arbitrary: i) (simp_all add: identity_def)

lemma parseProps_without_predicate:
  assumes "validateKey K dev (objGet ps ''key'') ''key'' = Return kk"
    and "objGet ps ''shouldUpdate'' = JUndefined"
    and "\<not> truthy (objGet ps ''$$empty'')"
    and "argProcessor = identity \<or> rest = []"
  shows "parseProps K env dev (f # JObj ps # rest) argProcessor p prevKey ctor opv S =
     Return (Fresh (mkConfig
       (JObj (applyProps K [(''$$refId'', refIdFor K (JObj ps) p prevKey), (''children'', JArr rest)]
                (JObj ps)))
       (refIdFor K (JObj ps) p prevKey) ctor), S)"
  using assms
  by (auto simp: parseProps_def getPropsFromArgs_def prepareArgs_def evalEach_identity Let_def
      split: option.splits)

lemma parseProps_with_predicate:
  assumes "validateKey K dev (objGet ps ''key'') ''key'' = Return kk"
    and "objGet ps ''shouldUpdate'' \<noteq> JUndefined"
    and "\<not> truthy (objGet ps ''$$empty'')"
    and "getCurrentConfig S (refIdFor K (JObj ps) p prevKey) = Some old"
    and "props' = JObj (applyProps K
            [(''$$refId'', refIdFor K (JObj ps) p prevKey), (''children'', JArr rest)] (JObj ps))"
    and "callFn env (objGet ps ''shouldUpdate'') [getProp old ''props'', props'] = Return r"
  shows "parseProps K env dev (f # JObj ps # rest) identity p prevKey ctor opv S =
     Return (if truthy r then Fresh (mkConfig props' (refIdFor K (JObj ps) p prevKey) ctor)
             else Stored old, S)"
  using assms
  by (auto simp: parseProps_def getPropsFromArgs_def prepareArgs_def evalEach_identity Let_def
      mkConfig_def objGet_def)

lemma processLisp_component_without_predicate:
  assumes "''object'' \<notin> set (primitiveTypes K)"
    and "JArr (f # JObj ps # rest) \<notin> set (ignoredValues K)"
    and "isFunc f"
    and "validateKey K dev (objGet ps ''key'') ''key'' = Return kk"
    and "objGet ps ''shouldUpdate'' = JUndefined"
    and "\<not> truthy (objGet ps ''$$empty'')"
    and "\<not> isDomComponent f \<or> rest = []"
    and "props' = JObj (applyProps K
            [(''$$refId'', refIdFor K (JObj ps) p prevKey), (''children'', JArr rest)] (JObj ps))"
    and "config = mkConfig props' (refIdFor K (JObj ps) p prevKey) f"
  shows "processLisp K env dev (Suc n) (JArr (f # JObj ps # rest)) p prevKey prevCtor opv S =
         invokeComponent env (processLisp K env dev n) f
           (if isDomComponent f then config else props') config (getProp props' ''$$refId'') opv S"
proof -
  have pp: "parseProps K env dev (f # JObj ps # rest)
      (if isDomComponent f then processLisp K env dev n else identity) p prevKey f opv S =
     Return (Fresh config, S)"
    using assms by (simp add: parseProps_without_predicate [where kk = kk])
  show ?thesis
    using assms(1-3,8,9) pp
    by (simp add: processLisp.simps(2) processExpression_def Let_def mkConfig_def objGet_def)
qed

lemma processLisp_component_with_predicate:
  assumes "''object'' \<notin> set (primitiveTypes K)"
    and "JArr (JFun c # JObj ps # rest) \<notin> set (ignoredValues K)"
    and "validateKey K dev (objGet ps ''key'') ''key'' = Return kk"
    and "objGet ps ''shouldUpdate'' \<noteq> JUndefined"
    and "\<not> truthy (objGet ps ''$$empty'')"
    and "getCurrentConfig S (refIdFor K (JObj ps) p prevKey) = Some old"
    and "getProp (getProp old ''props'') ''$$refId'' = refIdFor K (JObj ps) p prevKey"
    and "props' = JObj (applyProps K
            [(''$$refId'', refIdFor K (JObj ps) p prevKey), (''children'', JArr rest)] (JObj ps))"
    and "callFn env (objGet ps ''shouldUpdate'') [getProp old ''props'', props'] = Return r"
  shows "processLisp K env dev (Suc n) (JArr (JFun c # JObj ps # rest)) p prevKey prevCtor opv S =
     (if truthy r
      then invokeComponent env (processLisp K env dev n) (JFun c) props'
             (mkConfig props' (refIdFor K (JObj ps) p prevKey) (JFun c))
             (getProp props' ''$$refId'') opv S
      else Return (getTreeValue S (refIdFor K (JObj ps) p prevKey), S))"
proof -
  have pp: "parseProps K env dev (JFun c # JObj ps # rest) identity p prevKey (JFun c) opv S =
     Return (if truthy r then Fresh (mkConfig props' (refIdFor K (JObj ps) p prevKey) (JFun c))
             else Stored old, S)"
    using assms by (simp add: parseProps_with_predicate [where kk = kk and r = r])
  show ?thesis
    using assms(1,2,6,7) pp
    by (simp add: processLisp.simps(2) processExpression_def Let_def mkConfig_def objGet_def)
qed



section \<open>Key validation\<close>

text \<open>
  C7. In development mode a defined key whose type is neither string nor number makes
  \<open>validateKey\<close> raise the key-type error, and a defined string or number key with a
  character outside the pattern \<open>/^[a-zA-Z0-9-_/]*$/\<close> makes it raise the key-pattern
  error. Outside development mode \<open>validateKey\<close> returns every key unchanged and
  raises nothing.
\<close>

theorem validateKey_development_gated:
  "(dev \<longrightarrow> isDef K key \<longrightarrow> typeof key \<noteq> ''string'' \<and> typeof key \<noteq> ''number'' \<longrightarrow>
      validateKey K dev key keyType = Raise (InvalidKeyType keyType key)) \<and>
   (dev \<longrightarrow> isDef K key \<longrightarrow> (typeof key = ''string'' \<or> typeof key = ''number'') \<longrightarrow>
      \<not> list_all keyChar (toStr key) \<longrightarrow>
      validateKey K dev key keyType = Raise (InvalidKeyPattern keyType key)) \<and>
   (\<not> dev \<longrightarrow> validateKey K dev key keyType = Return key)"
  by (simp add: validateKey_def vnodeKeyTypes_def keyRegex_test_def)

theorem validateKey_development_gated_witness:
  "isDef defaultConstants (JBool True) \<and> typeof (JBool True) \<noteq> ''string'' \<and>
   typeof (JBool True) \<noteq> ''number'' \<and>
   validateKey defaultConstants True (JBool True) ''key''
     = Raise (InvalidKeyType ''key'' (JBool True)) \<and>
   isDef defaultConstants (JStr ''a.b'') \<and> typeof (JStr ''a.b'') = ''string'' \<and>
   \<not> list_all keyChar (toStr (JStr ''a.b'')) \<and>
   validateKey defaultConstants True (JStr ''a.b'') ''key''
     = Raise (InvalidKeyPattern ''key'' (JStr ''a.b'')) \<and>
   validateKey defaultConstants False (JStr ''a.b'') ''key'' = Return (JStr ''a.b'')"
  using validateKey_development_gated [of True defaultConstants "JBool True" "''key''"]
    validateKey_development_gated [of True defaultConstants "JStr ''a.b''" "''key''"]
    validateKey_development_gated [of False defaultConstants "JStr ''a.b''" "''key''"]
  by (simp add: defaultConstants_def keyChar_def)

section \<open>Fragment\<close>

text \<open>
  C10. The exported \<open>Fragment\<close> component is the projection onto the \<open>children\<close>
  prop: for every props object \<open>p\<close>, \<open>Fragment(p)\<close> returns \<open>p.children\<close> as it is.
\<close>

theorem Fragment_returns_children:
  "Fragment (JObj p) = Return (objGet p ''children'')"
  by (simp add: Fragment_def)

section \<open>Hooks\<close>

text \<open>
  C9. For every RefId whose subtree root has no scoped model registry and for every
  key, \<open>hasModel(refId, key)\<close> is \<open>false\<close>: the lookup falls back to the empty map.
  \<open>hasModel\<close> has no raising step on a string RefId, so it returns a plain boolean.
\<close>

theorem hasModel_without_registry:
  "getScopedModels K H refId = None \<Longrightarrow> hasModel K H refId key = False"
  by (simp add: hasModel_def withDefault_def emptyMap_def)

theorem hasModel_without_registry_witness:
  "getScopedModels defaultConstants emptyHooks ''root/0'' = None \<and>
   hasModel defaultConstants emptyHooks ''root/0'' (JStr ''count'') = False"
proof -
  have h: "getScopedModels defaultConstants emptyHooks ''root/0'' = None"
    by (simp add: getScopedModels_def emptyHooks_def)
  from h hasModel_without_registry [OF h, of "JStr ''count''"] show ?thesis by simp
qed

section \<open>createElement on a realized node\<close>

text \<open>
  C6 as stated fails: in development mode \<open>createElement\<close> validates the seed before it
  looks at the value, so \<open>createElement(existingNode)\<close> with no seed raises the
  invalid-seed error instead of returning the node.
\<close>

theorem createElement_seed_counterexample:
  "createElement defaultConstants idleEnv True 1 divNode JUndefined Identity emptyState
     = Raise (InvalidSeedPath JUndefined)"
  by (simp add: createElement_def validateSeedPath_def hasTreeValue_def emptyState_def
      vnodeKeyTypes_def)

text \<open>
  C6, amended. For every value that is already a realized node, \<open>createElement\<close>
  returns that very node and leaves the stores as they are, whenever the seed passes
  validation: outside development mode, or when the seed is a RefId of the tree-value
  store, or a string or number that satisfies the key pattern.
\<close>

theorem createElement_vnode_identity:
  assumes "isVnode v"
    and "\<not> dev \<or> hasTreeValue S seedPath \<or>
         ((typeof seedPath = ''string'' \<or> typeof seedPath = ''number'') \<and>
          list_all keyChar (toStr seedPath))"
  shows "createElement K env dev fuel v seedPath opv S = Return (v, S)"
  using assms
  by (auto simp: createElement_def validateSeedPath_def validateKey_def vnodeKeyTypes_def
      keyRegex_test_def)

theorem createElement_vnode_identity_witness:
  "isVnode divNode \<and>
   (typeof (JStr ''root'') = ''string'' \<and> list_all keyChar (toStr (JStr ''root''))) \<and>
   createElement defaultConstants idleEnv True 0 divNode (JStr ''root'') Identity emptyState
     = Return (divNode, emptyState)"
proof -
  have a: "isVnode divNode" by (simp add: divNode_def)
  have b: "\<not> True \<or> hasTreeValue emptyState (JStr ''root'') \<or>
         ((typeof (JStr ''root'') = ''string'' \<or> typeof (JStr ''root'') = ''number'') \<and>
          list_all keyChar (toStr (JStr ''root'')))"
    by (simp add: keyChar_def)
  from createElement_vnode_identity [OF a b] a b show ?thesis by (simp add: keyChar_def)
qed

section \<open>Index fallback in collections\<close>

text \<open>
  C2. For every collection of three elements \<open>[A, B, C]\<close> (an array whose first
  element is not callable) evaluated at the parent path \<open>root\<close>, the evaluator
  evaluates \<open>A\<close>, \<open>B\<close> and \<open>C\<close> in order at the path \<open>root/@item\<close> with the
  default keys 0, 1 and 2; and the RefId that \<open>parseProps\<close> computes there for an
  unkeyed child (no \<open>key\<close>, no previous RefId) is \<open>root/@item/0\<close>,
  \<open>root/@item/1\<close> and \<open>root/@item/2\<close>.
\<close>

theorem collection_index_fallback:
  assumes sep: "pathSeparator K = ''/''"
    and coll: "\<not> isFunc a"
    and np: "''object'' \<notin> set (primitiveTypes K)"
    and ni: "JArr [a, b, c] \<notin> set (ignoredValues K)"
  shows "processLisp K env dev (Suc n) (JArr [a, b, c]) (Path (JStr ''root'')) prevKey prevCtor opv S =
     obind (processLisp K env dev n a (Path (JStr ''root/@item'')) (JNum 0) prevCtor opv S)
       (\<lambda>(ra, S1).
     obind (processLisp K env dev n b (Path (JStr ''root/@item'')) (JNum 1) prevCtor opv S1)
       (\<lambda>(rb, S2).
     obind (processLisp K env dev n c (Path (JStr ''root/@item'')) (JNum 2) prevCtor opv S2)
       (\<lambda>(rc, S3). Return (JArr [ra, rb, rc], S3)))) \<and>
     (\<forall>props. getProp props ''key'' = JUndefined \<and>
        \<not> isDef K (getProp props ''$$previousRefId'') \<longrightarrow>
        refIdFor K props (Path (JStr ''root/@item'')) (JNum 0) = JStr ''root/@item/0'' \<and>
        refIdFor K props (Path (JStr ''root/@item'')) (JNum 1) = JStr ''root/@item/1'' \<and>
        refIdFor K props (Path (JStr ''root/@item'')) (JNum 2) = JStr ''root/@item/2'')"
proof
  show "processLisp K env dev (Suc n) (JArr [a, b, c]) (Path (JStr ''root'')) prevKey prevCtor opv S =
     obind (processLisp K env dev n a (Path (JStr ''root/@item'')) (JNum 0) prevCtor opv S)
       (\<lambda>(ra, S1).
     obind (processLisp K env dev n b (Path (JStr ''root/@item'')) (JNum 1) prevCtor opv S1)
       (\<lambda>(rb, S2).
     obind (processLisp K env dev n c (Path (JStr ''root/@item'')) (JNum 2) prevCtor opv S2)
       (\<lambda>(rc, S3). Return (JArr [ra, rb, rc], S3))))"
    using assms
    by (simp add: processLisp.simps(2) processCollection_def obind_assoc case_prod_unfold Let_def)
  show "\<forall>props. getProp props ''key'' = JUndefined \<and>
        \<not> isDef K (getProp props ''$$previousRefId'') \<longrightarrow>
        refIdFor K props (Path (JStr ''root/@item'')) (JNum 0) = JStr ''root/@item/0'' \<and>
        refIdFor K props (Path (JStr ''root/@item'')) (JNum 1) = JStr ''root/@item/1'' \<and>
        refIdFor K props (Path (JStr ''root/@item'')) (JNum 2) = JStr ''root/@item/2''"
    using sep by (simp add: refIdFor_def)
qed

lemma items_run:
  "map_outcome (map fst \<circ> invoked \<circ> snd)
     (processLisp defaultConstants itemEnv True (Suc 2)
        (JArr [JArr [JFun 0], JArr [JFun 1], JArr [JFun 2]]) (Path (JStr ''root''))
        JUndefined JUndefined SetTreeValue emptyState)
   = Return [JStr ''root/@item/0'', JStr ''root/@item/1'', JStr ''root/@item/2'']"
  by code_simp

theorem collection_index_fallback_witness:
  "pathSeparator defaultConstants = ''/'' \<and> \<not> isFunc (JArr [JFun 0]) \<and>
   ''object'' \<notin> set (primitiveTypes defaultConstants) \<and>
   JArr [JArr [JFun 0], JArr [JFun 1], JArr [JFun 2]] \<notin> set (ignoredValues defaultConstants) \<and>
   map_outcome (map fst \<circ> invoked \<circ> snd)
     (obind (processLisp defaultConstants itemEnv True 2 (JArr [JFun 0])
               (Path (JStr ''root/@item'')) (JNum 0) JUndefined SetTreeValue emptyState)
        (\<lambda>(ra, S1).
      obind (processLisp defaultConstants itemEnv True 2 (JArr [JFun 1])
               (Path (JStr ''root/@item'')) (JNum 1) JUndefined SetTreeValue S1)
        (\<lambda>(rb, S2).
      obind (processLisp defaultConstants itemEnv True 2 (JArr [JFun 2])
               (Path (JStr ''root/@item'')) (JNum 2) JUndefined SetTreeValue S2)
        (\<lambda>(rc, S3). Return (JArr [ra, rb, rc], S3)))))
   = Return [JStr ''root/@item/0'', JStr ''root/@item/1'', JStr ''root/@item/2'']"
proof -
  have h: "pathSeparator defaultConstants = ''/''" "\<not> isFunc (JArr [JFun 0])"
    "''object'' \<notin> set (primitiveTypes defaultConstants)"
    "JArr [JArr [JFun 0], JArr [JFun 1], JArr [JFun 2]] \<notin> set (ignoredValues defaultConstants)"
    by (simp_all add: defaultConstants_def)
  from collection_index_fallback [OF h, of itemEnv True 2 JUndefined JUndefined SetTreeValue emptyState]
    items_run h
  show ?thesis by simp
qed

section \<open>Keys and the identity path\<close>




section \<open>Memoization\<close>

text \<open>
  C1 as stated fails: the predicate answers whether to update. With
  \<open>shouldUpdate = (a, b) => a.x === b.x\<close> and a first call with \<open>{x: 1}\<close> at the RefId
  \<open>R\<close>, the second evaluation with \<open>{x: 1}\<close> calls the component again (two calls are
  on record), and a third evaluation with \<open>{x: 2}\<close> does not call it: it returns the
  stored tree value and leaves the two calls on record.
\<close>

theorem memoization_counterexample:
  "processLisp defaultConstants eqEnv True 2 (memoExpr 1) NewPath (JStr ''R'') JUndefined
      SetTreeValue emptyState = Return (JText (JStr ''hi''), memoState1) \<and>
   processLisp defaultConstants eqEnv True 2 (memoExpr 1) NewPath (JStr ''R'') JUndefined
      SetTreeValue memoState1 = Return (JText (JStr ''hi''), memoState2) \<and>
   length (invoked memoState2) = 2 \<and>
   processLisp defaultConstants eqEnv True 2 (memoExpr 2) NewPath (JStr ''R'') JUndefined
      SetTreeValue memoState2 = Return (JText (JStr ''hi''), memoState2)"
  by code_simp

lemma evalEach_invoked:
  assumes g: "\<forall>arg p i c ov S r S'. cb arg p i c ov S = Return (r, S') \<longrightarrow>
      (\<exists>ext. invoked S' = invoked S @ ext)"
  shows "evalEach cb p c ov xs i S = Return (rs, S') \<Longrightarrow> \<exists>ext. invoked S' = invoked S @ ext"
proof (induction xs arbitrary: i S rs S')
  case Nil
  then show ?case by simp
next
  case (Cons x xs)
  from Cons.prems obtain r S1 rs' where
    a: "cb x p (JNum (int i)) c ov S = Return (r, S1)"
    and b: "evalEach cb p c ov xs (Suc i) S1 = Return (rs', S')"
    by (auto simp: obind_Return_iff)
  from g a obtain e1 where "invoked S1 = invoked S @ e1" by blast
  with Cons.IH [OF b] show ?case by auto
qed

lemma identity_invoked: "\<forall>arg p i c ov S r S'. identity arg p i c ov S = Return (r, S') \<longrightarrow>
      (\<exists>ext. invoked S' = invoked S @ ext)"
  by (simp add: identity_def)

lemma parseProps_invoked:
  assumes g: "\<forall>arg p i c ov S r S'. cb arg p i c ov S = Return (r, S') \<longrightarrow>
      (\<exists>ext. invoked S' = invoked S @ ext)"
  shows "parseProps K env dev value cb p prevKey ctor opv S = Return (cr, S') \<Longrightarrow>
      \<exists>ext. invoked S' = invoked S @ ext"
  using evalEach_invoked [OF g]
  by (auto simp: parseProps_def prepareArgs_def obind_Return_iff Let_def
      split: option.splits if_splits)

lemma invokeComponent_invoked:
  assumes g: "\<forall>arg p i c ov S r S'. rec arg p i c ov S = Return (r, S') \<longrightarrow>
      (\<exists>ext. invoked S' = invoked S @ ext)"
  shows "invokeComponent env rec f fInput config refId opv S = Return (v, S') \<Longrightarrow>
      \<exists>ext. invoked S' = invoked S @ (refId, f, fInput) # ext"
proof -
  assume "invokeComponent env rec f fInput config refId opv S = Return (v, S')"
  then obtain nv S4 where
    r: "rec nv (Path refId) (JStr ''@fn'') f opv
          ((setCurrentDispatcher refId f (setCurrentConfig refId config S))
            \<lparr>invoked := invoked (setCurrentDispatcher refId f (setCurrentConfig refId config S))
               @ [(refId, f, fInput)]\<rparr>) = Return (v, S4)"
    and s: "S' = applyOnPathValue opv refId v config S4"
    by (auto simp: invokeComponent_def Let_def obind_Return_iff)
  from g r obtain ext where "invoked S4 = invoked S @ (refId, f, fInput) # ext"
    by (fastforce simp: setCurrentDispatcher_def setCurrentConfig_def)
  with s show ?thesis by (cases opv) (auto simp: setTreeValue_def)
qed

lemma processExpression_invoked:
  assumes g: "\<forall>arg p i c ov S r S'. rec arg p i c ov S = Return (r, S') \<longrightarrow>
      (\<exists>ext. invoked S' = invoked S @ ext)"
  shows "processExpression K env dev rec value p prevKey opv S = Return (v, S') \<Longrightarrow>
      \<exists>ext. invoked S' = invoked S @ ext"
proof -
  assume a: "processExpression K env dev rec value p prevKey opv S = Return (v, S')"
  let ?ap = "if isDomComponent (hd value) then rec else identity"
  have ap: "\<forall>arg p i c ov S r S'. ?ap arg p i c ov S = Return (r, S') \<longrightarrow>
      (\<exists>ext. invoked S' = invoked S @ ext)"
    using g identity_invoked by (cases "isDomComponent (hd value)") simp_all
  from a obtain cr S1 where
    pp: "parseProps K env dev value ?ap p prevKey (hd value) opv S = Return (cr, S1)"
    by (auto simp: processExpression_def Let_def obind_Return_iff)
  from parseProps_invoked [OF ap pp] obtain e1 where e1: "invoked S1 = invoked S @ e1" by blast
  from a pp have "S' = S1 \<or> (\<exists>fi cfg rid. invokeComponent env rec (hd value) fi cfg rid opv S1 = Return (v, S'))"
    by (auto simp: processExpression_def Let_def split: if_splits)
  then show ?thesis
  proof
    assume "S' = S1" with e1 show ?thesis by simp
  next
    assume "\<exists>fi cfg rid. invokeComponent env rec (hd value) fi cfg rid opv S1 = Return (v, S')"
    then obtain fi cfg rid where "invokeComponent env rec (hd value) fi cfg rid opv S1 = Return (v, S')"
      by blast
    from invokeComponent_invoked [OF g this] e1 show ?thesis by auto
  qed
qed

lemma processCollection_invoked:
  assumes g: "\<forall>arg p i c ov S r S'. rec arg p i c ov S = Return (r, S') \<longrightarrow>
      (\<exists>ext. invoked S' = invoked S @ ext)"
  shows "processCollection K rec value p prevCtor opv S = Return (v, S') \<Longrightarrow>
      \<exists>ext. invoked S' = invoked S @ ext"
  using evalEach_invoked [OF g]
  by (auto simp: processCollection_def obind_Return_iff Let_def)

lemma processLisp_invoked: "\<forall>arg p i c ov S r S'. processLisp K env dev n arg p i c ov S = Return (r, S') \<longrightarrow>
      (\<exists>ext. invoked S' = invoked S @ ext)"
proof (induction n)
  case 0
  then show ?case by simp
next
  case (Suc n)
  show ?case
    using processExpression_invoked [OF Suc] processCollection_invoked [OF Suc]
    by (auto simp: processLisp.simps(2) validateVnodeValue_def obind_Return_iff
        split: jsval.splits if_splits)
qed

text \<open>
  C1, amended. Let a component have been invoked at the RefId \<open>R\<close> with props
  \<open>{x: 1}\<close>, so that the config stored for \<open>R\<close> has \<open>x = 1\<close>, and let
  \<open>shouldUpdate = (a, b) => a.x !== b.x\<close>. An evaluation at \<open>R\<close> with \<open>{x: 1}\<close> does
  not invoke the component: it returns the tree value stored for \<open>R\<close> and changes no
  store. An evaluation with \<open>{x: 2}\<close> invokes it, and so does every evaluation whose
  props carry no \<open>shouldUpdate\<close>: the evaluation is the call of the component with the
  new props, and when it returns, that call is on record after the calls made before.
\<close>

theorem memoization_by_shouldUpdate:
  assumes pred: "\<And>a b. env p [a, b] = JBool (getProp a ''x'' \<noteq> getProp b ''x'')"
    and xs: "''x'' \<notin> set (specialProps K)"
    and undef: "\<not> isDef K JUndefined"
    and prim: "''object'' \<notin> set (primitiveTypes K)"
    and ign: "\<And>xs. JArr xs \<notin> set (ignoredValues K)"
    and rid: "addToRefId K pth prevKey = R"
    and stored: "getCurrentConfig S R = Some old"
    and oldx: "getProp (getProp old ''props'') ''x'' = JNum 1"
    and oldid: "getProp (getProp old ''props'') ''$$refId'' = R"
  shows "processLisp K env dev (Suc n)
           (JArr [JFun c, JObj [(''x'', JNum 1), (''shouldUpdate'', JFun p)]])
           pth prevKey prevCtor opv S
         = Return (getTreeValue S R, S) \<and>
         (let props2 = JObj (applyProps K [(''$$refId'', R), (''children'', JArr [])]
                        (JObj [(''x'', JNum 2), (''shouldUpdate'', JFun p)]))
          in processLisp K env dev (Suc n)
               (JArr [JFun c, JObj [(''x'', JNum 2), (''shouldUpdate'', JFun p)]])
               pth prevKey prevCtor opv S
             = invokeComponent env (processLisp K env dev n) (JFun c) props2
                 (mkConfig props2 R (JFun c)) R opv S \<and>
             (\<forall>v S'. processLisp K env dev (Suc n)
                 (JArr [JFun c, JObj [(''x'', JNum 2), (''shouldUpdate'', JFun p)]])
                 pth prevKey prevCtor opv S = Return (v, S') \<longrightarrow>
               (\<exists>ext. invoked S' = invoked S @ (R, JFun c, props2) # ext))) \<and>
         (\<forall>x. let props3 = JObj [(''$$refId'', R), (''children'', JArr []), (''x'', x)]
          in processLisp K env dev (Suc n) (JArr [JFun c, JObj [(''x'', x)]])
               pth prevKey prevCtor opv S
             = invokeComponent env (processLisp K env dev n) (JFun c) props3
                 (mkConfig props3 R (JFun c)) R opv S \<and>
             (\<forall>v S'. processLisp K env dev (Suc n) (JArr [JFun c, JObj [(''x'', x)]])
                 pth prevKey prevCtor opv S = Return (v, S') \<longrightarrow>
               (\<exists>ext. invoked S' = invoked S @ (R, JFun c, props3) # ext)))"
proof -
  have vk: "validateKey K dev JUndefined ''key'' = Return JUndefined"
    using undef by (simp add: validateKey_def)
  have r: "refIdFor K (JObj ps) pth prevKey = R"
    if "objGet ps ''key'' = JUndefined" "objGet ps ''$$previousRefId'' = JUndefined" for ps
    using that undef rid by (simp add: refIdFor_def)
  let ?ps = "\<lambda>x. [(''x'', JNum x), (''shouldUpdate'', JFun p)]"
  have px: "objGet (applyProps K [(''$$refId'', R), (''children'', JArr [])] (JObj (?ps x))) ''x''
      = JNum x" for x
    using xs by (simp add: applyProps_def objSet_def objGet_def)
  have pid: "objGet (applyProps K [(''$$refId'', R), (''children'', JArr [])] (JObj (?ps x))) ''$$refId''
      = R" for x
    using xs by (simp add: applyProps_def objSet_def objGet_def)
  have g: "objGet (?ps x) ''key'' = JUndefined" "objGet (?ps x) ''$$previousRefId'' = JUndefined"
    "objGet (?ps x) ''$$empty'' = JUndefined" "objGet (?ps x) ''shouldUpdate'' = JFun p" for x
    by (simp_all add: objGet_def)
  have skip: "processLisp K env dev (Suc n) (JArr [JFun c, JObj (?ps 1)]) pth prevKey prevCtor opv S
      = Return (getTreeValue S R, S)"
    apply (subst processLisp_component_with_predicate [OF prim ign, where kk = JUndefined and old = old
          and r = "JBool False", OF _ _ _ _ _ refl])
    using stored oldid oldx
          apply (simp_all add: g vk r pred px)
    done
  have again: "processLisp K env dev (Suc n) (JArr [JFun c, JObj (?ps 2)]) pth prevKey prevCtor opv S
      = invokeComponent env (processLisp K env dev n) (JFun c)
          (JObj (applyProps K [(''$$refId'', R), (''children'', JArr [])] (JObj (?ps 2))))
          (mkConfig (JObj (applyProps K [(''$$refId'', R), (''children'', JArr [])] (JObj (?ps 2)))) R (JFun c))
          R opv S"
    apply (subst processLisp_component_with_predicate [OF prim ign, where kk = JUndefined and old = old
          and r = "JBool True", OF _ _ _ _ _ refl])
    using stored oldid oldx
          apply (simp_all add: g vk r pred px pid)
    done
  have always: "processLisp K env dev (Suc n) (JArr [JFun c, JObj [(''x'', v)]]) pth prevKey prevCtor opv S
      = invokeComponent env (processLisp K env dev n) (JFun c)
          (JObj [(''$$refId'', R), (''children'', JArr []), (''x'', v)])
          (mkConfig (JObj [(''$$refId'', R), (''children'', JArr []), (''x'', v)]) R (JFun c))
          R opv S" for v
    apply (subst processLisp_component_without_predicate [OF prim ign, where kk = JUndefined, OF _ _ _ _ _ refl refl])
    using xs
         apply (simp_all add: objGet_def vk r applyProps_def objSet_def)
    done
  note inv = invokeComponent_invoked [OF processLisp_invoked]
  from skip again always show ?thesis by (auto simp: Let_def dest: inv)
qed

lemma memo_first_run:
  "processLisp defaultConstants neqEnv True (Suc 1) (memoExpr 1) NewPath (JStr ''R'') JUndefined
      SetTreeValue emptyState = Return (JText (JStr ''hi''), memoState1)"
  by code_simp

lemma memo_third_run:
  "map_outcome (length \<circ> invoked \<circ> snd)
     (processLisp defaultConstants neqEnv True (Suc 1) (memoExpr 2) NewPath (JStr ''R'') JUndefined
        SetTreeValue memoState1) = Return 2"
  by code_simp

theorem memoization_by_shouldUpdate_witness:
  "processLisp defaultConstants neqEnv True (Suc 1) (memoExpr 1) NewPath (JStr ''R'') JUndefined
      SetTreeValue emptyState = Return (JText (JStr ''hi''), memoState1) \<and>
   getCurrentConfig memoState1 (JStr ''R'') = Some (memoConfig 1) \<and>
   processLisp defaultConstants neqEnv True (Suc 1) (memoExpr 1) NewPath (JStr ''R'') JUndefined
      SetTreeValue memoState1 = Return (JText (JStr ''hi''), memoState1) \<and>
   map_outcome (length \<circ> invoked \<circ> snd)
     (invokeComponent neqEnv (processLisp defaultConstants neqEnv True 1) (JFun 0) (memoProps 2)
        (memoConfig 2) (JStr ''R'') SetTreeValue memoState1) = Return 2"
proof -
  have pred: "\<And>a b. neqEnv 1 [a, b] = JBool (getProp a ''x'' \<noteq> getProp b ''x'')"
    by (simp add: neqEnv_def)
  have xs: "''x'' \<notin> set (specialProps defaultConstants)"
    and undef: "\<not> isDef defaultConstants JUndefined"
    and prim: "''object'' \<notin> set (primitiveTypes defaultConstants)"
    and ign: "\<And>xs. JArr xs \<notin> set (ignoredValues defaultConstants)"
    by (auto simp: defaultConstants_def)
  have rid: "addToRefId defaultConstants NewPath (JStr ''R'') = JStr ''R''" by simp
  have stored: "getCurrentConfig memoState1 (JStr ''R'') = Some (memoConfig 1)"
    by (simp add: getCurrentConfig_def memoState1_def)
  have oldx: "getProp (getProp (memoConfig 1) ''props'') ''x'' = JNum 1"
    and oldid: "getProp (getProp (memoConfig 1) ''props'') ''$$refId'' = JStr ''R''"
    by (simp_all add: memoConfig_def memoProps_def mkConfig_def objGet_def)
  have tv: "getTreeValue memoState1 (JStr ''R'') = JText (JStr ''hi'')"
    by (simp add: getTreeValue_def memoState1_def)
  have p2: "JObj (applyProps defaultConstants [(''$$refId'', JStr ''R''), (''children'', JArr [])]
      (JObj [(''x'', JNum 2), (''shouldUpdate'', JFun 1)])) = memoProps 2"
    by (simp add: applyProps_def defaultConstants_def objSet_def objGet_def memoProps_def)
  from memoization_by_shouldUpdate [of neqEnv 1 defaultConstants NewPath "JStr ''R''" "JStr ''R''"
      memoState1 "memoConfig 1" True 1 0 JUndefined SetTreeValue,
      OF pred xs undef prim ign rid stored oldx oldid]
    memo_first_run memo_third_run stored tv p2
  show ?thesis by (simp add: memoExpr_def Let_def memoConfig_def)
qed

section \<open>The model key of useModel\<close>

lemma initModel_returns:
  "\<exists>v. (if isFunc im then callFn env im [] else Return im) = Return v \<and>
        initModel env im H =
          Return (length (atoms H), H\<lparr>atoms := atoms H @ [\<lparr>mvalue = v, watchersList = []\<rparr>]\<rparr>)"
proof (cases "isFunc im")
  case True
  then obtain v where "callFn env im [] = Return v" using callFn_isFunc by blast
  with True show ?thesis by (auto simp: initModel_def atom_def intro: exI [of _ v])
next
  case False
  then show ?thesis by (auto simp: initModel_def atom_def intro: exI [of _ im])
qed

lemma getScopedModels_setup:
  "getScopedModels K (setupScopedModels K refId H) refId = Some []"
  by (simp add: getScopedModels_def setupScopedModels_def update_conv')

lemma useModel_registered:
  assumes reg: "getScopedModels K H refId = Some reg0"
    and key: "key \<noteq> JUndefined"
  shows "(opts \<noteq> JNull \<longrightarrow> (\<exists>m H'. useModel K env refId key im opts H = Return (m, H'))) \<and>
    (\<forall>m H'. useModel K env refId key im opts H = Return (m, H') \<longrightarrow>
       (\<exists>reg. getScopedModels K H' refId = Some reg \<and> map_of reg key = Some m) \<and>
       (case map_of reg0 key of
          Some m0 \<Rightarrow> m = m0 \<and> length (atoms H') = length (atoms H)
        | None \<Rightarrow> m = length (atoms H) \<and> length (atoms H') = Suc (length (atoms H)) \<and>
            (if isFunc im then callFn env im [] else Return im) = Return (mvalue (atoms H' ! m))))"
proof (cases "map_of reg0 key")
  case None
  obtain v where iv: "(if isFunc im then callFn env im [] else Return im) = Return v"
     "initModel env im H = Return (length (atoms H), H\<lparr>atoms := atoms H @ [\<lparr>mvalue = v, watchersList = []\<rparr>]\<rparr>)"
    using initModel_returns by blast
  from reg key None iv show ?thesis
    by (auto simp: useModel.simps [of K env refId key] Let_def getScopedModels_def addWatch_def
        enqueueHook_def update_conv' defaultOptions_def split: if_splits)
next
  case (Some m0)
  from reg key Some show ?thesis
    by (auto simp: useModel.simps [of K env refId key] Let_def getScopedModels_def addWatch_def
        enqueueHook_def update_conv' defaultOptions_def split: if_splits)
qed

lemma useModel_unregistered:
  assumes "getScopedModels K H refId = None" and "key \<noteq> JUndefined"
  shows "useModel K env refId key im opts H =
         useModel K env refId key im (if opts = JUndefined then defaultOptions else opts)
           (setupScopedModels K refId H)"
  using assms by (simp add: useModel.simps [of K env refId key im opts H])

text \<open>
  C8. When \<open>useModel\<close> is called with the key omitted, the model key is the RefId
  itself: \<open>useModel(refId, undefined, init)\<close> is \<open>useModel(refId, refId, init)\<close>; it
  returns unless the options are \<open>null\<close>; and the model it returns is the one stored
  under the key \<open>refId\<close> in the registry of the subtree root of \<open>refId\<close>, namely the
  model that was stored there before or, when there was none, a new cell that holds
  the initial value.
\<close>

theorem useModel_key_defaults_to_refId:
  "useModel K env refId JUndefined im opts H = useModel K env refId (JStr refId) im opts H \<and>
   (opts \<noteq> JNull \<longrightarrow> (\<exists>m H'. useModel K env refId JUndefined im opts H = Return (m, H'))) \<and>
   (\<forall>m H'. useModel K env refId JUndefined im opts H = Return (m, H') \<longrightarrow>
      (\<exists>reg. getScopedModels K H' refId = Some reg \<and> map_of reg (JStr refId) = Some m) \<and>
      (case map_of (withDefault (getScopedModels K H refId) emptyMap) (JStr refId) of
         Some m0 \<Rightarrow> m = m0 \<and> length (atoms H') = length (atoms H)
       | None \<Rightarrow> m = length (atoms H) \<and> length (atoms H') = Suc (length (atoms H)) \<and>
           (if isFunc im then callFn env im [] else Return im) = Return (mvalue (atoms H' ! m))))"
proof -
  have d: "useModel K env refId JUndefined im opts H = useModel K env refId (JStr refId) im opts H"
    by (simp add: useModel.simps [of K env refId JUndefined] useModel.simps [of K env refId "JStr refId"])
  show ?thesis
  proof (cases "getScopedModels K H refId")
    case None
    let ?H1 = "setupScopedModels K refId H"
    let ?o = "if opts = JUndefined then defaultOptions else opts"
    have u: "useModel K env refId (JStr refId) im opts H = useModel K env refId (JStr refId) im ?o ?H1"
      using None by (simp add: useModel_unregistered)
    have a: "atoms ?H1 = atoms H" by (simp add: setupScopedModels_def)
    have o: "opts \<noteq> JNull \<Longrightarrow> ?o \<noteq> JNull" by (simp add: defaultOptions_def)
    have g: "getScopedModels K ?H1 refId = Some []" by (rule getScopedModels_setup)
    from useModel_registered [OF g, where key = "JStr refId" and opts = ?o and env = env and im = im]
    show ?thesis using None d u a o
      by (simp add: withDefault_def emptyMap_def)
  next
    case (Some reg0)
    from useModel_registered [OF Some, where key = "JStr refId" and opts = opts and env = env and im = im]
    show ?thesis using Some d by (simp add: withDefault_def)
  qed
qed

lemma useModel_run:
  "useModel defaultConstants idleEnv ''root/0'' JUndefined (JNum 5) JUndefined emptyHooks =
     Return (0, hooksAfter)"
  by code_simp

theorem useModel_key_defaults_to_refId_witness:
  "JUndefined \<noteq> JNull \<and>
   useModel defaultConstants idleEnv ''root/0'' (JStr ''root/0'') (JNum 5) JUndefined emptyHooks =
     Return (0, hooksAfter) \<and>
   (\<exists>reg. getScopedModels defaultConstants hooksAfter ''root/0'' = Some reg \<and>
      map_of reg (JStr ''root/0'') = Some 0)"
  using useModel_key_defaults_to_refId [of defaultConstants idleEnv "''root/0''" "JNum 5" JUndefined emptyHooks]
    useModel_run
  by simp

section \<open>Conflicting children\<close>













section \<open>Forced update of a fragment\<close>













end
